theory Spec2Isabelle
  imports Complex_Main
begin

section \<open>Front-end data types (web/frontend/src/types/index.ts)\<close>

text \<open>
  The TypeScript interfaces become records. A TypeScript \<open>number\<close> is modelled as a
  real, a \<open>string\<close> as a \<^typ>\<open>string\<close>, an array as a list and \<open>T | null\<close> as an
  option. Several interfaces declare fields of the same name (\<open>idx\<close>, \<open>low\<close>, \<open>code\<close>,
  ...); the records prefix them with a tag of the interface, and \<open>begin\<close>, \<open>end\<close>,
  \<open>open\<close>, \<open>type\<close> are renamed the same way.
\<close>

text \<open>\<open>KLineType\<close>: the eight period literals, from one minute to one month.\<close>

datatype KLineType = K_1M | K_5M | K_15M | K_30M | K_60M | K_DAY | K_WEEK | K_MON

record StockInfo =
  code :: string
  name :: string

record KLineUnit =
  kl_idx :: real
  kl_time :: string
  kl_open :: real
  kl_high :: real
  kl_low :: real
  kl_close :: real
  kl_volume :: real

datatype direction = up | down

record BiInfo =
  bi_idx :: real
  bi_begin_idx :: real
  bi_end_idx :: real
  bi_begin_x :: real
  bi_end_x :: real
  bi_begin_y :: real
  bi_end_y :: real
  bi_is_sure :: bool
  bi_direction :: direction

record SegInfo =
  seg_idx :: real
  seg_begin_idx :: real
  seg_end_idx :: real
  seg_begin_x :: real
  seg_end_x :: real
  seg_begin_y :: real
  seg_end_y :: real
  seg_is_sure :: bool
  seg_direction :: direction

record ZSInfo =
  zs_idx :: real
  zs_begin :: real
  zs_end :: real
  zs_low :: real
  zs_high :: real
  zs_is_sure :: bool

record BSPInfo =
  bsp_idx :: real
  bsp_x :: real
  bsp_y :: real
  bsp_is_buy :: bool
  bsp_type :: string
  bsp_is_sure :: bool

record MACDInfo =
  macd_idx :: real
  macd_dif :: real
  macd_dea :: real
  macd_macd :: real

record ChanAnalysisResult =
  res_code :: string
  res_name :: string
  kl_type :: string
  klines :: "KLineUnit list"
  bi_list :: "BiInfo list"
  seg_list :: "SegInfo list"
  zs_list :: "ZSInfo list"
  bsp_list :: "BSPInfo list"
  macd_list :: "MACDInfo list"
  dateticks :: "string list"

record MultiLevelResult =
  ml_code :: string
  ml_name :: string
  levels :: "string \<rightharpoonup> ChanAnalysisResult"

record PlotConfig =
  showKline :: bool
  showBi :: bool
  showSeg :: bool
  showZs :: bool
  showBsp :: bool
  showMacd :: bool

text \<open>
  \<open>Partial<PlotConfig>\<close>: every key may be absent (\<open>None\<close>); a key that is present
  holds a boolean, as the declared type of the field and the only caller
  (\<open>toggleOption\<close>, which passes \<open>!plotConfig[key]\<close>) have it.
\<close>

record PartialPlotConfig =
  p_showKline :: "bool option"
  p_showBi :: "bool option"
  p_showSeg :: "bool option"
  p_showZs :: "bool option"
  p_showBsp :: "bool option"
  p_showMacd :: "bool option"

section \<open>The application store (web/frontend/src/stores/appStore.ts)\<close>

text \<open>
  The data fields of \<open>AppState\<close>. The setters of the interface are the functions
  below: zustand's \<open>set\<close> merges the object it is given into the state, so every
  setter is a record update that returns the new state.
\<close>

record AppState =
  currentStock :: "StockInfo option"
  analysisResult :: "ChanAnalysisResult option"
  multiLevelResult :: "MultiLevelResult option"
  isAnalyzing :: bool
  klType :: KLineType
  periods :: real
  selectedLevels :: "KLineType list"
  plotConfig :: PlotConfig
  history :: "StockInfo list"

definition initial_state :: AppState where
  "initial_state =
     \<lparr> currentStock = None, analysisResult = None, multiLevelResult = None,
       isAnalyzing = False, klType = K_DAY, periods = 300,
       selectedLevels = [K_DAY, K_60M, K_15M],
       plotConfig = \<lparr> showKline = True, showBi = True, showSeg = True,
                      showZs = True, showBsp = True, showMacd = True \<rparr>,
       history = [] \<rparr>"

definition setCurrentStock :: "StockInfo option \<Rightarrow> AppState \<Rightarrow> AppState" where
  "setCurrentStock stock state = state\<lparr>currentStock := stock\<rparr>"

definition setAnalysisResult :: "ChanAnalysisResult option \<Rightarrow> AppState \<Rightarrow> AppState" where
  "setAnalysisResult result state = state\<lparr>analysisResult := result\<rparr>"

definition setMultiLevelResult :: "MultiLevelResult option \<Rightarrow> AppState \<Rightarrow> AppState" where
  "setMultiLevelResult result state = state\<lparr>multiLevelResult := result\<rparr>"

definition setIsAnalyzing :: "bool \<Rightarrow> AppState \<Rightarrow> AppState" where
  "setIsAnalyzing v state = state\<lparr>isAnalyzing := v\<rparr>"

definition setKlType :: "KLineType \<Rightarrow> AppState \<Rightarrow> AppState" where
  "setKlType t state = state\<lparr>klType := t\<rparr>"

definition setPeriods :: "real \<Rightarrow> AppState \<Rightarrow> AppState" where
  "setPeriods p state = state\<lparr>periods := p\<rparr>"

definition setSelectedLevels :: "KLineType list \<Rightarrow> AppState \<Rightarrow> AppState" where
  "setSelectedLevels ls state = state\<lparr>selectedLevels := ls\<rparr>"

text \<open>The object spread \<open>{ ...state.plotConfig, ...config }\<close>: a key of \<open>config\<close> wins.\<close>

definition spread_PlotConfig :: "PlotConfig \<Rightarrow> PartialPlotConfig \<Rightarrow> PlotConfig" where
  "spread_PlotConfig c p =
     \<lparr> showKline = (case p_showKline p of Some v \<Rightarrow> v | None \<Rightarrow> showKline c),
       showBi = (case p_showBi p of Some v \<Rightarrow> v | None \<Rightarrow> showBi c),
       showSeg = (case p_showSeg p of Some v \<Rightarrow> v | None \<Rightarrow> showSeg c),
       showZs = (case p_showZs p of Some v \<Rightarrow> v | None \<Rightarrow> showZs c),
       showBsp = (case p_showBsp p of Some v \<Rightarrow> v | None \<Rightarrow> showBsp c),
       showMacd = (case p_showMacd p of Some v \<Rightarrow> v | None \<Rightarrow> showMacd c) \<rparr>"

definition setPlotConfig :: "PartialPlotConfig \<Rightarrow> AppState \<Rightarrow> AppState" where
  "setPlotConfig config state =
     state\<lparr>plotConfig := spread_PlotConfig (plotConfig state) config\<rparr>"

text \<open>\<open>Array.prototype.slice(b, e)\<close> for indices that are not negative.\<close>

definition slice :: "nat \<Rightarrow> nat \<Rightarrow> 'a list \<Rightarrow> 'a list" where
  "slice b e xs = take (e - b) (drop b xs)"

definition addToHistory :: "StockInfo \<Rightarrow> AppState \<Rightarrow> AppState" where
  "addToHistory stock state =
     (let filtered = filter (\<lambda>s. code s \<noteq> code stock) (history state)
      in state\<lparr>history := slice 0 20 (stock # filtered)\<rparr>)"

definition clearHistory :: "AppState \<Rightarrow> AppState" where
  "clearHistory state = state\<lparr>history := []\<rparr>"

text \<open>The calls a component can make on the store, and a run of them.\<close>

datatype action =
    SetCurrentStock "StockInfo option"
  | SetAnalysisResult "ChanAnalysisResult option"
  | SetMultiLevelResult "MultiLevelResult option"
  | SetIsAnalyzing bool
  | SetKlType KLineType
  | SetPeriods real
  | SetSelectedLevels "KLineType list"
  | SetPlotConfig PartialPlotConfig
  | AddToHistory StockInfo
  | ClearHistory

fun apply_action :: "action \<Rightarrow> AppState \<Rightarrow> AppState" where
  "apply_action (SetCurrentStock x) s = setCurrentStock x s"
| "apply_action (SetAnalysisResult x) s = setAnalysisResult x s"
| "apply_action (SetMultiLevelResult x) s = setMultiLevelResult x s"
| "apply_action (SetIsAnalyzing x) s = setIsAnalyzing x s"
| "apply_action (SetKlType x) s = setKlType x s"
| "apply_action (SetPeriods x) s = setPeriods x s"
| "apply_action (SetSelectedLevels x) s = setSelectedLevels x s"
| "apply_action (SetPlotConfig x) s = setPlotConfig x s"
| "apply_action (AddToHistory x) s = addToHistory x s"
| "apply_action ClearHistory s = clearHistory s"

fun run_actions :: "action list \<Rightarrow> AppState \<Rightarrow> AppState" where
  "run_actions [] s = s"
| "run_actions (a # as) s = run_actions as (apply_action a s)"

subsection \<open>Persistence (the \<open>persist\<close> options of the store)\<close>

text \<open>
  The object \<open>partialize\<close> returns: the part of the state that the \<open>persist\<close>
  middleware keeps.
\<close>

record PersistedState =
  st_klType :: KLineType
  st_periods :: real
  st_selectedLevels :: "KLineType list"
  st_plotConfig :: PlotConfig
  st_history :: "StockInfo list"

definition partialize :: "AppState \<Rightarrow> PersistedState" where
  "partialize state =
     \<lparr> st_klType = klType state, st_periods = periods state,
       st_selectedLevels = selectedLevels state, st_plotConfig = plotConfig state,
       st_history = history state \<rparr>"

definition storage_name :: string where
  "storage_name = ''chan-web-storage''"

text \<open>
  The storage maps a key to the state object stored under it. The middleware is given
  \<open>name\<close> and \<open>partialize\<close>; after every \<open>set\<close> it stores \<open>partialize\<close> of the new
  state under \<open>name\<close> (the version number it adds and the JSON encoding are left out).
\<close>

type_synonym storage = "string \<rightharpoonup> PersistedState"

definition persist_set :: "(AppState \<Rightarrow> AppState) \<Rightarrow> AppState \<times> storage \<Rightarrow> AppState \<times> storage" where
  "persist_set f = (\<lambda>(state, st).
     let state' = f state in (state', st(storage_name \<mapsto> partialize state')))"

definition dispatch :: "action \<Rightarrow> AppState \<times> storage \<Rightarrow> AppState \<times> storage" where
  "dispatch a = persist_set (apply_action a)"


section \<open>The analysis engine at its boundary\<close>

text \<open>
  The analysis engine that the web layer calls (the chan.py library: \<open>Chan.py\<close>,
  \<open>ChanConfig.py\<close>, \<open>Bi/\<close>, \<open>Seg/\<close>, \<open>ZS/\<close>, \<open>BuySellPoint/\<close>) is not among the
  sources: only the types of its results (above), a declaration of its configuration and
  its quick-start guide are. What this section defines of the engine follows the
  specification, and each such definition says so.
\<close>

subsection \<open>Zones\<close>

text \<open>
  Modelled from the spec: the swing builders are missing. A swing (a stroke or a
  segment) enters zone construction as its price range \<open>[low, high]\<close> (section 4.4); a
  zone is stored with its bounds, a range again (section 3).
\<close>

record price_range =
  low :: real
  high :: real

text \<open>
  Modelled from the spec: two ranges \<open>[low, high]\<close> overlap when they share a price, that
  is, when the larger of the two lows is not above the smaller of the two highs.
\<close>

definition ranges_overlap :: "price_range \<Rightarrow> price_range \<Rightarrow> bool" where
  "ranges_overlap a b \<longleftrightarrow> max (low a) (low b) \<le> min (high a) (high b)"

text \<open>
  Modelled from the spec: the intersection of three ranges, from the largest low to the
  smallest high.
\<close>

definition intersection3 :: "price_range \<Rightarrow> price_range \<Rightarrow> price_range \<Rightarrow> price_range" where
  "intersection3 a b c =
     \<lparr> low = max (low a) (max (low b) (low c)),
       high = min (high a) (min (high b) (high c)) \<rparr>"

text \<open>
  Modelled from the spec: the zone builder is missing. Section 4.4: ``A zone candidate
  opens once three consecutive same-granularity swings have overlapping \<open>[low,high]\<close>
  ranges; its bounds are the intersection of those three ranges'', and section 3: the
  bounds ``must always represent genuine price overlap''. \<open>open_zone a b c\<close> is the
  bounds of the zone that three consecutive swings with the ranges \<open>a\<close>, \<open>b\<close>, \<open>c\<close> open,
  or \<open>None\<close> when their intersection holds no price.
\<close>

definition open_zone :: "price_range \<Rightarrow> price_range \<Rightarrow> price_range \<Rightarrow> price_range option" where
  "open_zone a b c =
     (let z = intersection3 a b c in if low z \<le> high z then Some z else None)"


subsection \<open>The data model of the engine\<close>

text \<open>
  Modelled from the spec: the engine's own data types are missing. The records follow
  section 3 field by field: a bar, a merged candle that owns its run of bars, a stroke, a
  segment, a zone and a signal. Indices and counts are natural numbers, the timestamp
  is an integer and prices, volumes and measurements are reals.
\<close>

record Bar =
  timestamp :: int
  bar_open :: real
  bar_high :: real
  bar_low :: real
  bar_close :: real
  bar_volume :: real

datatype candle_direction = Up | Down | Undetermined

record MergedCandle =
  mc_bars :: "Bar list"
  mc_index :: nat
  mc_high :: real
  mc_low :: real
  mc_direction :: candle_direction
  mc_begin :: nat
  mc_end :: nat

record Stroke =
  st_begin :: nat
  st_end :: nat
  st_begin_price :: real
  st_end_price :: real
  st_direction :: direction
  st_confirmed :: bool

record Segment =
  sg_begin :: nat
  sg_end :: nat
  sg_begin_price :: real
  sg_end_price :: real
  sg_direction :: direction
  sg_confirmed :: bool

record Zone =
  zone_bounds :: price_range
  zone_begin :: nat
  zone_end :: nat
  zone_confirmed :: bool
  zone_extended :: "bool option"

datatype signal_type = T1 | T2 | T3a | T3b | T1p | T2s

record Signal =
  sig_ref :: nat
  sig_type :: signal_type
  sig_is_buy :: bool
  sig_confirmed :: bool
  sig_divergence :: real

text \<open>
  Modelled from the spec: the configuration is a string-keyed dictionary (section 9),
  here an association list of option names and values.
\<close>

datatype config_value = BoolV bool | StrV string | NumV real

type_synonym config_dict = "(string \<times> config_value) list"

text \<open>
  Modelled from the spec: the \<open>AnalysisContext\<close> of section 3, the aggregate that owns
  the five ordered lists, created from a configuration.
\<close>

record AnalysisContext =
  ctx_config :: config_dict
  candles :: "MergedCandle list"
  strokes :: "Stroke list"
  segments :: "Segment list"
  zones :: "Zone list"
  signals :: "Signal list"

definition new_context :: "config_dict \<Rightarrow> AnalysisContext" where
  "new_context cfg =
     \<lparr> ctx_config = cfg, candles = [], strokes = [], segments = [], zones = [], signals = [] \<rparr>"

text \<open>Modelled from the spec: the error taxonomy of section 7.\<close>

datatype engine_error = DataError | ConfigError | InvariantViolation

subsection \<open>Feeding a bar\<close>

text \<open>
  Modelled from the spec: the previous bar of a context is the last bar that its last
  merged candle owns (a merged candle owns a contiguous run of the bars, section 3).
\<close>

definition last_bar :: "AnalysisContext \<Rightarrow> Bar option" where
  "last_bar ctx =
     (case rev (candles ctx) of
        [] \<Rightarrow> None
      | c # _ \<Rightarrow> (case rev (mc_bars c) of [] \<Rightarrow> None | b # _ \<Rightarrow> Some b))"

text \<open>
  Modelled from the spec: section 4.1 calls a bar malformed when its low is above its
  high or its timestamp does not increase (section 3: strictly increasing timestamps).
\<close>

definition malformed :: "AnalysisContext \<Rightarrow> Bar \<Rightarrow> bool" where
  "malformed ctx bar \<longleftrightarrow>
     bar_low bar > bar_high bar \<or>
     (case last_bar ctx of None \<Rightarrow> False | Some p \<Rightarrow> timestamp bar \<le> timestamp p)"

text \<open>
  Modelled from the spec: the \<open>feed\<close> operation of the context is missing. Sections 4.1
  and 7: a malformed bar ``rejects with a \<open>DataError\<close> and is not applied''; any other
  bar drives the five stages in order. The stages themselves are the parameter
  \<open>stages\<close>, which returns the revised context, or \<open>None\<close> when a stage detects a
  broken invariant. \<open>feed\<close> returns the error raised, if any, and the context after
  the call.
\<close>

definition feed ::
  "(AnalysisContext \<Rightarrow> Bar \<Rightarrow> AnalysisContext option) \<Rightarrow> AnalysisContext \<Rightarrow> Bar \<Rightarrow>
   engine_error option \<times> AnalysisContext" where
  "feed stages ctx bar =
     (if malformed ctx bar then (Some DataError, ctx)
      else (case stages ctx bar of
              None \<Rightarrow> (Some InvariantViolation, ctx)
            | Some ctx' \<Rightarrow> (None, ctx')))"


section \<open>The history list\<close>

lemma history_addToHistory:
  "history (addToHistory stock s) =
     stock # take 19 (filter (\<lambda>x. code x \<noteq> code stock) (history s))"
  by (simp add: addToHistory_def slice_def Let_def)

lemma distinct_codes_take_filter:
  "distinct (map code h) \<Longrightarrow>
   distinct (map code (take n (filter (\<lambda>x. code x \<noteq> c) h)))"
  by (simp add: distinct_map_filter distinct_take take_map [symmetric])

lemma code_notin_take_filter:
  "c \<notin> code ` set (take n (filter (\<lambda>x. code x \<noteq> c) h))"
  by (auto dest: in_set_takeD)

lemma addToHistory_keeps_distinct:
  "distinct (map code (history s)) \<Longrightarrow> distinct (map code (history (addToHistory stock s)))"
  using code_notin_take_filter [of "code stock" 19 "history s"]
  by (simp add: history_addToHistory distinct_codes_take_filter)

lemma apply_action_keeps_distinct:
  "distinct (map code (history s)) \<Longrightarrow> distinct (map code (history (apply_action a s)))"
  by (cases a)
     (simp_all add: addToHistory_keeps_distinct setCurrentStock_def setAnalysisResult_def
        setMultiLevelResult_def setIsAnalyzing_def setKlType_def setPeriods_def
        setSelectedLevels_def setPlotConfig_def clearHistory_def)

text \<open>
  Every history that a run of store calls builds from the initial, empty history holds
  each stock code at most once.
\<close>

lemma run_actions_keeps_distinct:
  "distinct (map code (history s)) \<Longrightarrow> distinct (map code (history (run_actions as s)))"
  by (induction as arbitrary: s) (simp_all add: apply_action_keeps_distinct)

lemma reachable_history_distinct:
  "distinct (map code (history (run_actions as initial_state)))"
  by (rule run_actions_keeps_distinct) (simp add: initial_state_def)

lemma filter_take_filter:
  "filter P (take n (filter P xs)) = take n (filter P xs)"
  by (rule filter_True) (auto dest: in_set_takeD)

text \<open>
  C8 (amended). For every prior state and every stock, the history that
  \<open>addToHistory\<close> produces is not empty and starts with the given stock, has at most 20
  entries, and its other entries are the previous entries with another code, in their
  previous order, cut after the first 19; none of them has the code of the given stock.
  When no two entries of the previous history share a code, no two entries of the new
  history do.
\<close>

theorem addToHistory_history_shape:
  "history (addToHistory stock s) \<noteq> [] \<and>
   hd (history (addToHistory stock s)) = stock \<and>
   length (history (addToHistory stock s)) \<le> 20 \<and>
   tl (history (addToHistory stock s)) =
     take 19 (filter (\<lambda>x. code x \<noteq> code stock) (history s)) \<and>
   filter (\<lambda>x. code x \<noteq> code stock) (history (addToHistory stock s)) =
     take 19 (filter (\<lambda>x. code x \<noteq> code stock) (history s)) \<and>
   (distinct (map code (history s)) \<longrightarrow>
      distinct (map code (history (addToHistory stock s))))"
proof -
  have shape: "history (addToHistory stock s) =
      stock # take 19 (filter (\<lambda>x. code x \<noteq> code stock) (history s))"
    by (rule history_addToHistory)
  have "distinct (map code (history s)) \<longrightarrow>
      distinct (map code (history (addToHistory stock s)))"
    by (rule impI) (rule addToHistory_keeps_distinct)
  moreover have "history (addToHistory stock s) \<noteq> []"
    and "hd (history (addToHistory stock s)) = stock"
    and "length (history (addToHistory stock s)) \<le> 20"
    and "tl (history (addToHistory stock s)) =
      take 19 (filter (\<lambda>x. code x \<noteq> code stock) (history s))"
    and "filter (\<lambda>x. code x \<noteq> code stock) (history (addToHistory stock s)) =
      take 19 (filter (\<lambda>x. code x \<noteq> code stock) (history s))"
    unfolding shape by (simp_all add: filter_take_filter)
  ultimately show ?thesis by blast
qed

text \<open>
  The theorem at a history of two stocks, when the second one is selected again: it
  moves to the front and the codes stay distinct.
\<close>

theorem addToHistory_history_shape_witness:
  "distinct (map code (history (initial_state\<lparr>history :=
       [\<lparr>code = ''sh.600000'', name = ''A''\<rparr>, \<lparr>code = ''sz.000001'', name = ''B''\<rparr>]\<rparr>))) \<and>
   history (addToHistory \<lparr>code = ''sz.000001'', name = ''B''\<rparr>
     (initial_state\<lparr>history :=
       [\<lparr>code = ''sh.600000'', name = ''A''\<rparr>, \<lparr>code = ''sz.000001'', name = ''B''\<rparr>]\<rparr>)) =
     [\<lparr>code = ''sz.000001'', name = ''B''\<rparr>, \<lparr>code = ''sh.600000'', name = ''A''\<rparr>] \<and>
   distinct (map code (history (addToHistory \<lparr>code = ''sz.000001'', name = ''B''\<rparr>
     (initial_state\<lparr>history :=
       [\<lparr>code = ''sh.600000'', name = ''A''\<rparr>, \<lparr>code = ''sz.000001'', name = ''B''\<rparr>]\<rparr>))))"
  using addToHistory_history_shape [of "\<lparr>code = ''sz.000001'', name = ''B''\<rparr>"
    "initial_state\<lparr>history :=
       [\<lparr>code = ''sh.600000'', name = ''A''\<rparr>, \<lparr>code = ''sz.000001'', name = ''B''\<rparr>]\<rparr>"]
  by (simp add: history_addToHistory)

text \<open>
  C8 as stated fails for a prior history that already holds a code twice (a list of the
  declared type, for instance one read back from storage): adding another stock keeps
  both entries.
\<close>

theorem addToHistory_duplicates_counterexample:
  "\<not> distinct (map code (history (addToHistory \<lparr>code = ''sz.000001'', name = ''B''\<rparr>
     (initial_state\<lparr>history :=
       [\<lparr>code = ''sh.600000'', name = ''A''\<rparr>, \<lparr>code = ''sh.600000'', name = ''A''\<rparr>]\<rparr>))))"
  by (simp add: history_addToHistory)

section \<open>The plot configuration\<close>

text \<open>
  C9. \<open>setPlotConfig\<close> gives every field of \<open>plotConfig\<close> that the partial object
  holds its new value, keeps every field the partial object does not hold, and changes
  no other field of the state.
\<close>

theorem setPlotConfig_frame:
  "showKline (plotConfig (setPlotConfig config s)) =
     (case p_showKline config of Some v \<Rightarrow> v | None \<Rightarrow> showKline (plotConfig s)) \<and>
   showBi (plotConfig (setPlotConfig config s)) =
     (case p_showBi config of Some v \<Rightarrow> v | None \<Rightarrow> showBi (plotConfig s)) \<and>
   showSeg (plotConfig (setPlotConfig config s)) =
     (case p_showSeg config of Some v \<Rightarrow> v | None \<Rightarrow> showSeg (plotConfig s)) \<and>
   showZs (plotConfig (setPlotConfig config s)) =
     (case p_showZs config of Some v \<Rightarrow> v | None \<Rightarrow> showZs (plotConfig s)) \<and>
   showBsp (plotConfig (setPlotConfig config s)) =
     (case p_showBsp config of Some v \<Rightarrow> v | None \<Rightarrow> showBsp (plotConfig s)) \<and>
   showMacd (plotConfig (setPlotConfig config s)) =
     (case p_showMacd config of Some v \<Rightarrow> v | None \<Rightarrow> showMacd (plotConfig s)) \<and>
   currentStock (setPlotConfig config s) = currentStock s \<and>
   analysisResult (setPlotConfig config s) = analysisResult s \<and>
   multiLevelResult (setPlotConfig config s) = multiLevelResult s \<and>
   isAnalyzing (setPlotConfig config s) = isAnalyzing s \<and>
   klType (setPlotConfig config s) = klType s \<and>
   periods (setPlotConfig config s) = periods s \<and>
   selectedLevels (setPlotConfig config s) = selectedLevels s \<and>
   history (setPlotConfig config s) = history s"
  by (simp add: setPlotConfig_def spread_PlotConfig_def)

section \<open>What is persisted\<close>

lemma partialize_apply_volatile:
  "partialize (setCurrentStock x s) = partialize s"
  "partialize (setAnalysisResult y s) = partialize s"
  "partialize (setMultiLevelResult z s) = partialize s"
  "partialize (setIsAnalyzing b s) = partialize s"
  by (simp_all add: partialize_def setCurrentStock_def setAnalysisResult_def
        setMultiLevelResult_def setIsAnalyzing_def)

lemma partialize_ignores_volatile:
  "partialize (s\<lparr>currentStock := x, analysisResult := y, multiLevelResult := z,
      isAnalyzing := b\<rparr>) = partialize s"
  by (simp add: partialize_def)

lemma apply_action_volatile_commute:
  "partialize (apply_action a (s\<lparr>currentStock := x, analysisResult := y,
      multiLevelResult := z, isAnalyzing := b\<rparr>)) = partialize (apply_action a s)"
  by (cases a)
     (simp_all add: partialize_def setCurrentStock_def setAnalysisResult_def
        setMultiLevelResult_def setIsAnalyzing_def setKlType_def setPeriods_def
        setSelectedLevels_def setPlotConfig_def clearHistory_def addToHistory_def Let_def)

text \<open>
  C10. After any store call the store holds the state the call produces, and the storage
  differs from the one before only under the key \<open>chan-web-storage\<close>, where it holds
  the projection of that new state to \<open>klType\<close>, \<open>periods\<close>, \<open>selectedLevels\<close>,
  \<open>plotConfig\<close> and \<open>history\<close>. What is stored does not depend on \<open>currentStock\<close>,
  \<open>analysisResult\<close>, \<open>multiLevelResult\<close> or \<open>isAnalyzing\<close>: changing them in the
  state before the call, or setting them by the call, stores the same object.
\<close>

theorem persisted_projection:
  "fst (dispatch a (s, st)) = apply_action a s \<and>
   snd (dispatch a (s, st)) = st(storage_name \<mapsto> partialize (fst (dispatch a (s, st)))) \<and>
   snd (dispatch a (s, st)) storage_name = Some (partialize (fst (dispatch a (s, st)))) \<and>
   snd (dispatch a (s, st)) = st(storage_name \<mapsto> partialize (apply_action a s)) \<and>
   storage_name = ''chan-web-storage'' \<and>
   partialize s' =
     \<lparr> st_klType = klType s', st_periods = periods s',
       st_selectedLevels = selectedLevels s', st_plotConfig = plotConfig s',
       st_history = history s' \<rparr> \<and>
   snd (dispatch a (s\<lparr>currentStock := x, analysisResult := y, multiLevelResult := z,
      isAnalyzing := b\<rparr>, st)) = snd (dispatch a (s, st)) \<and>
   snd (dispatch (SetCurrentStock x) (s, st)) = st(storage_name \<mapsto> partialize s) \<and>
   snd (dispatch (SetAnalysisResult y) (s, st)) = st(storage_name \<mapsto> partialize s) \<and>
   snd (dispatch (SetMultiLevelResult z) (s, st)) = st(storage_name \<mapsto> partialize s) \<and>
   snd (dispatch (SetIsAnalyzing b) (s, st)) = st(storage_name \<mapsto> partialize s)"
proof -
  have held: "\<And>a s. fst (dispatch a (s, st)) = apply_action a s"
    by (simp add: dispatch_def persist_set_def Let_def)
  have d: "\<And>a s. snd (dispatch a (s, st)) = st(storage_name \<mapsto> partialize (apply_action a s))"
    by (simp add: dispatch_def persist_set_def Let_def)
  show ?thesis
    unfolding held d apply_action_volatile_commute
    by (simp add: partialize_apply_volatile) (simp add: partialize_def storage_name_def)
qed

section \<open>Opening a zone\<close>

lemma ranges_overlap_common_price:
  "ranges_overlap a b \<longleftrightarrow> (\<exists>p. low a \<le> p \<and> p \<le> high a \<and> low b \<le> p \<and> p \<le> high b)"
proof
  assume "ranges_overlap a b"
  then have "low a \<le> max (low a) (low b) \<and> max (low a) (low b) \<le> high a \<and>
      low b \<le> max (low a) (low b) \<and> max (low a) (low b) \<le> high b"
    by (simp add: ranges_overlap_def)
  then show "\<exists>p. low a \<le> p \<and> p \<le> high a \<and> low b \<le> p \<and> p \<le> high b" ..
next
  assume "\<exists>p. low a \<le> p \<and> p \<le> high a \<and> low b \<le> p \<and> p \<le> high b"
  then show "ranges_overlap a b"
    by (auto simp: ranges_overlap_def)
qed

lemma pairwise_overlap_iff_intersection:
  "ranges_overlap a b \<and> ranges_overlap b c \<and> ranges_overlap a c \<longleftrightarrow>
   low (intersection3 a b c) \<le> high (intersection3 a b c)"
  by (auto simp: ranges_overlap_def intersection3_def)

text \<open>
  C3. Three consecutive swings open a zone exactly when their ranges overlap pairwise,
  and the bounds of the zone are then the intersection of the three ranges: the largest
  of the three lows and the smallest of the three highs. The ranges \<open>[100,110]\<close>,
  \<open>[95,108]\<close>, \<open>[102,112]\<close> open a zone with the bounds \<open>[102,108]\<close>.
\<close>

theorem open_zone_pairwise_overlap:
  "((open_zone a b c = Some z) =
     ((ranges_overlap a b \<and> ranges_overlap b c \<and> ranges_overlap a c) \<and>
      low z = max (low a) (max (low b) (low c)) \<and>
      high z = min (high a) (min (high b) (high c)))) \<and>
   ((open_zone a b c = None) =
     (\<not> (ranges_overlap a b \<and> ranges_overlap b c \<and> ranges_overlap a c))) \<and>
   open_zone \<lparr>low = 100, high = 110\<rparr> \<lparr>low = 95, high = 108\<rparr> \<lparr>low = 102, high = 112\<rparr> =
     Some \<lparr>low = 102, high = 108\<rparr>"
proof -
  have opens: "(open_zone a b c = Some z) =
     ((ranges_overlap a b \<and> ranges_overlap b c \<and> ranges_overlap a c) \<and>
      low z = max (low a) (max (low b) (low c)) \<and>
      high z = min (high a) (min (high b) (high c)))"
    unfolding pairwise_overlap_iff_intersection
    by (cases z) (auto simp: open_zone_def Let_def intersection3_def)
  have stays_closed: "(open_zone a b c = None) =
     (\<not> (ranges_overlap a b \<and> ranges_overlap b c \<and> ranges_overlap a c))"
    unfolding pairwise_overlap_iff_intersection
    by (simp add: open_zone_def Let_def)
  have scenario:
    "open_zone \<lparr>low = 100, high = 110\<rparr> \<lparr>low = 95, high = 108\<rparr> \<lparr>low = 102, high = 112\<rparr> =
       Some \<lparr>low = 102, high = 108\<rparr>"
    by (simp add: open_zone_def Let_def intersection3_def)
  from opens stays_closed scenario show ?thesis by (intro conjI)
qed

section \<open>Rejecting a malformed bar\<close>

text \<open>
  C4. Feeding a malformed bar (its low above its high, or its timestamp not greater
  than that of the previous bar) to any context fails with a \<open>DataError\<close> and leaves the
  context as it was: the lists of merged candles, strokes, segments, zones and signals
  are the same after the call as before.
\<close>

theorem feed_malformed_rejected:
  assumes "bar_low bar > bar_high bar \<or>
           (\<exists>p. last_bar ctx = Some p \<and> timestamp bar \<le> timestamp p)"
  shows "fst (feed stages ctx bar) = Some DataError \<and>
         snd (feed stages ctx bar) = ctx \<and>
         candles (snd (feed stages ctx bar)) = candles ctx \<and>
         strokes (snd (feed stages ctx bar)) = strokes ctx \<and>
         segments (snd (feed stages ctx bar)) = segments ctx \<and>
         zones (snd (feed stages ctx bar)) = zones ctx \<and>
         signals (snd (feed stages ctx bar)) = signals ctx"
proof -
  from assms have "malformed ctx bar"
    by (auto simp: malformed_def)
  then show ?thesis
    by (simp add: feed_def)
qed

text \<open>
  The theorem at a bar whose low (12) is above its high (10), fed to a fresh context, and
  at a bar whose timestamp (5) is that of the previous bar, fed to a context that holds
  one merged candle: both are rejected and the context stays, although the stages given
  here would empty it.
\<close>

theorem feed_malformed_rejected_witness:
  "feed (\<lambda>c b. Some (new_context []))
     (new_context [(''bi_strict'', BoolV True)])
     \<lparr>timestamp = 1, bar_open = 11, bar_high = 10, bar_low = 12, bar_close = 11,
       bar_volume = 0\<rparr> =
     (Some DataError, new_context [(''bi_strict'', BoolV True)]) \<and>
   feed (\<lambda>c b. Some (new_context []))
     ((new_context [])\<lparr>candles :=
        [\<lparr>mc_bars = [\<lparr>timestamp = 5, bar_open = 10, bar_high = 12, bar_low = 9,
            bar_close = 11, bar_volume = 100\<rparr>],
          mc_index = 0, mc_high = 12, mc_low = 9, mc_direction = Undetermined,
          mc_begin = 0, mc_end = 0\<rparr>]\<rparr>)
     \<lparr>timestamp = 5, bar_open = 11, bar_high = 13, bar_low = 10, bar_close = 12,
       bar_volume = 100\<rparr> =
     (Some DataError,
      (new_context [])\<lparr>candles :=
        [\<lparr>mc_bars = [\<lparr>timestamp = 5, bar_open = 10, bar_high = 12, bar_low = 9,
            bar_close = 11, bar_volume = 100\<rparr>],
          mc_index = 0, mc_high = 12, mc_low = 9, mc_direction = Undetermined,
          mc_begin = 0, mc_end = 0\<rparr>]\<rparr>)"
proof -
  have low_above_high:
    "bar_low \<lparr>timestamp = 1, bar_open = 11, bar_high = 10, bar_low = 12, bar_close = 11,
       bar_volume = 0\<rparr> >
     bar_high \<lparr>timestamp = 1, bar_open = 11, bar_high = 10, bar_low = 12, bar_close = 11,
       bar_volume = (0::real)\<rparr>"
    by simp
  have not_later:
    "\<exists>p. last_bar ((new_context [])\<lparr>candles :=
        [\<lparr>mc_bars = [\<lparr>timestamp = 5, bar_open = 10, bar_high = 12, bar_low = 9,
            bar_close = 11, bar_volume = 100\<rparr>],
          mc_index = 0, mc_high = 12, mc_low = 9, mc_direction = Undetermined,
          mc_begin = 0, mc_end = 0\<rparr>]\<rparr>) = Some p \<and>
       timestamp \<lparr>timestamp = 5, bar_open = 11, bar_high = 13, bar_low = 10,
         bar_close = 12, bar_volume = (100::real)\<rparr> \<le> timestamp p"
    by (simp add: last_bar_def)
  show ?thesis
    using feed_malformed_rejected [OF disjI1, OF low_above_high,
        of "\<lambda>c b. Some (new_context [])" "new_context [(''bi_strict'', BoolV True)]"]
      feed_malformed_rejected [OF disjI2, OF not_later, of "\<lambda>c b. Some (new_context [])"]
    by (simp add: prod_eq_iff)
qed

end
